theory Spec2Isabelle
  imports Complex_Main "HOL-Library.AList"
begin

section \<open>Taper equations of timberpy (taper\_equations\_cy.pyx)\<close>

text \<open>
  The module holds four Cython functions, \<open>czaplewski_heights\<close>, \<open>kozak1969_heights\<close>,
  \<open>kozak1988_heights\<close> and \<open>wensel_heights\<close>. Each one converts \<open>total_height\<close> to a C
  \<open>int\<close>, loops over \<open>range(1, top_height + 1)\<close> and stores the list
  \<open>[int(dib), dib, dib / 12.0]\<close> in a dict under the loop variable.

  What the embedding takes from Cython and C:
  \<^item> The operands are C floating-point numbers. The model keeps the four kinds of value
    they have (finite, plus infinity, minus infinity, not-a-number) and the rules of
    IEEE 754 and of C's \<open>sqrt\<close>, \<open>log\<close>, \<open>exp\<close> and \<open>pow\<close> for the special values.
    On finite values the arithmetic is the exact arithmetic of the reals, an
    abstraction of the machine's: a binary32 or binary64 operation rounds its result,
    overflows to an infinity and keeps the sign of a zero, and the model does none of
    these. The theorems below are therefore only about what rounding cannot change:
    which keys a profile has, whether a call raises, how the three stored components
    are related, and the diameter in the cases where every operation that reaches it
    has an exactly representable result (stated as a hypothesis, \<open>binary32\<close>, where
    it is needed). The value of a diameter in general, which is the rounded result of
    the operations of its formula, is not the subject of any theorem here.
  \<^item> With Cython's default directive (\<open>cdivision=False\<close>, the file sets no other) every
    \<open>/\<close> whose divisor is not a non-zero constant is guarded: a divisor equal to zero
    raises \<open>ZeroDivisionError\<close>, also for C floats. \<open>dib / 12.0\<close> has a constant divisor
    and no guard.
  \<^item> \<open>int(x)\<close> of a C float assigned to a \<open>cdef int\<close> is the C cast \<open>(int)x\<close>: it
    truncates toward zero when the truncated value fits 32 bits. Outside that range
    (and for infinities and NaN) C gives the conversion no meaning; the model returns
    the value the x86-64 conversion instruction delivers there, \<open>-2^31\<close>.
  \<^item> The literals \<open>1\<close> and \<open>2\<close> are C \<open>long\<close>s, so \<open>top_height + 1\<close>,
    \<open>stem_height - 1\<close> and \<open>stem_height ** 2\<close> are computed in \<open>long\<close>, where (64 bits)
    they cannot overflow for a 32-bit \<open>stem_height\<close>: the model computes them in \<open>int\<close>.
  \<^item> The dict is an association list in insertion order; \<open>d[k] = v\<close> is
    \<open>AList.update\<close>, which replaces the value of a key that is present and appends
    otherwise.
\<close>

subsection \<open>C floating-point values\<close>

text \<open>
  A finite value carries a real number, and the operations below return the exact
  result on finite operands: the sum, product and quotient are not rounded, \<open>exp\<close> and
  \<open>pow\<close> do not overflow, and there is one zero. They agree with the machine's
  operations where the exact result is representable, and on the special values.
\<close>

datatype cfloat = Fin real | PInf | NInf | NaN

datatype error = ZeroDivisionError

instantiation cfloat :: "{plus, minus, uminus, times, divide}"
begin

fun plus_cfloat :: "cfloat \<Rightarrow> cfloat \<Rightarrow> cfloat" where
  "plus_cfloat (Fin x) (Fin y) = Fin (x + y)"
| "plus_cfloat NaN _ = NaN"
| "plus_cfloat _ NaN = NaN"
| "plus_cfloat PInf NInf = NaN"
| "plus_cfloat NInf PInf = NaN"
| "plus_cfloat PInf _ = PInf"
| "plus_cfloat _ PInf = PInf"
| "plus_cfloat NInf _ = NInf"
| "plus_cfloat _ NInf = NInf"

fun uminus_cfloat :: "cfloat \<Rightarrow> cfloat" where
  "uminus_cfloat (Fin x) = Fin (- x)"
| "uminus_cfloat PInf = NInf"
| "uminus_cfloat NInf = PInf"
| "uminus_cfloat NaN = NaN"

definition minus_cfloat :: "cfloat \<Rightarrow> cfloat \<Rightarrow> cfloat" where
  "minus_cfloat x y = x + (- y)"

text \<open>An infinity with the sign of a non-zero real.\<close>

definition inf_sgn :: "real \<Rightarrow> cfloat" where
  "inf_sgn s = (if 0 < s then PInf else NInf)"

fun times_cfloat :: "cfloat \<Rightarrow> cfloat \<Rightarrow> cfloat" where
  "times_cfloat (Fin x) (Fin y) = Fin (x * y)"
| "times_cfloat NaN _ = NaN"
| "times_cfloat _ NaN = NaN"
| "times_cfloat (Fin x) PInf = (if x = 0 then NaN else inf_sgn x)"
| "times_cfloat (Fin x) NInf = (if x = 0 then NaN else inf_sgn (- x))"
| "times_cfloat PInf (Fin y) = (if y = 0 then NaN else inf_sgn y)"
| "times_cfloat NInf (Fin y) = (if y = 0 then NaN else inf_sgn (- y))"
| "times_cfloat PInf PInf = PInf"
| "times_cfloat PInf NInf = NInf"
| "times_cfloat NInf PInf = NInf"
| "times_cfloat NInf NInf = PInf"

text \<open>
  The unguarded C division. A finite, non-zero dividend over zero is an infinity
  (of the dividend's sign, the zero taken as positive), zero over zero is NaN.
\<close>

fun divide_cfloat :: "cfloat \<Rightarrow> cfloat \<Rightarrow> cfloat" where
  "divide_cfloat (Fin x) (Fin y) =
     (if y = 0 then (if x = 0 then NaN else inf_sgn x) else Fin (x / y))"
| "divide_cfloat NaN _ = NaN"
| "divide_cfloat _ NaN = NaN"
| "divide_cfloat (Fin x) PInf = Fin 0"
| "divide_cfloat (Fin x) NInf = Fin 0"
| "divide_cfloat PInf (Fin y) = (if 0 \<le> y then PInf else NInf)"
| "divide_cfloat NInf (Fin y) = (if 0 \<le> y then NInf else PInf)"
| "divide_cfloat PInf PInf = NaN"
| "divide_cfloat PInf NInf = NaN"
| "divide_cfloat NInf PInf = NaN"
| "divide_cfloat NInf NInf = NaN"

instance ..

end

instantiation cfloat :: inverse
begin

definition inverse_cfloat :: "cfloat \<Rightarrow> cfloat" where
  "inverse_cfloat x = divide (Fin 1) x"

instance ..

end

text \<open>The comparison \<open>x < y\<close> of C: false as soon as one side is NaN.\<close>

fun flt :: "cfloat \<Rightarrow> cfloat \<Rightarrow> bool" where
  "flt (Fin x) (Fin y) = (x < y)"
| "flt NaN _ = False"
| "flt _ NaN = False"
| "flt _ NInf = False"
| "flt PInf _ = False"
| "flt NInf _ = True"
| "flt _ PInf = True"

text \<open>\<open>sqrt\<close>, \<open>log\<close> and \<open>exp\<close> of libc.math.\<close>

fun fsqrt :: "cfloat \<Rightarrow> cfloat" where
  "fsqrt (Fin x) = (if 0 \<le> x then Fin (sqrt x) else NaN)"
| "fsqrt PInf = PInf"
| "fsqrt NInf = NaN"
| "fsqrt NaN = NaN"

fun flog :: "cfloat \<Rightarrow> cfloat" where
  "flog (Fin x) = (if 0 < x then Fin (ln x) else if x = 0 then NInf else NaN)"
| "flog PInf = PInf"
| "flog NInf = NaN"
| "flog NaN = NaN"

fun fexp :: "cfloat \<Rightarrow> cfloat" where
  "fexp (Fin x) = Fin (exp x)"
| "fexp PInf = PInf"
| "fexp NInf = Fin 0"
| "fexp NaN = NaN"

text \<open>
  \<open>x ** y\<close> on C floats is C's \<open>pow\<close>: \<open>pow(x, 0)\<close> is 1 for every \<open>x\<close> (also for 0 and
  for NaN), \<open>pow(1, y)\<close> is 1 for every \<open>y\<close>, \<open>pow(0, y)\<close> is 0 for positive and
  infinite for negative \<open>y\<close>, a negative base has a power only for an integer exponent.
\<close>

definition is_int :: "real \<Rightarrow> bool" where
  "is_int y = (y = of_int \<lfloor>y\<rfloor>)"

definition int_pow :: "real \<Rightarrow> int \<Rightarrow> real" where
  "int_pow x n = (if 0 \<le> n then x ^ nat n else 1 / x ^ nat (- n))"

fun fpow :: "cfloat \<Rightarrow> cfloat \<Rightarrow> cfloat" where
  "fpow x (Fin y) =
     (if y = 0 then Fin 1
      else case x of
        Fin b \<Rightarrow>
          (if 0 < b then Fin (b powr y)
           else if b = 0 then (if 0 < y then Fin 0 else PInf)
           else if is_int y then Fin (int_pow b \<lfloor>y\<rfloor>)
           else NaN)
      | PInf \<Rightarrow> (if 0 < y then PInf else Fin 0)
      | NInf \<Rightarrow> (if 0 < y then (if is_int y \<and> odd \<lfloor>y\<rfloor> then NInf else PInf) else Fin 0)
      | NaN \<Rightarrow> NaN)"
| "fpow x PInf =
     (case x of
        Fin b \<Rightarrow> (if \<bar>b\<bar> = 1 then Fin 1 else if \<bar>b\<bar> < 1 then Fin 0 else PInf)
      | PInf \<Rightarrow> PInf
      | NInf \<Rightarrow> PInf
      | NaN \<Rightarrow> NaN)"
| "fpow x NInf =
     (case x of
        Fin b \<Rightarrow> (if \<bar>b\<bar> = 1 then Fin 1 else if \<bar>b\<bar> < 1 then PInf else Fin 0)
      | PInf \<Rightarrow> Fin 0
      | NInf \<Rightarrow> Fin 0
      | NaN \<Rightarrow> NaN)"
| "fpow x NaN = (if x = Fin 1 then Fin 1 else NaN)"

subsection \<open>Conversions and the guarded division\<close>

text \<open>A C integer used in a floating-point expression.\<close>

definition of_c_int :: "int \<Rightarrow> cfloat" where
  "of_c_int n = Fin (of_int n)"

text \<open>Truncation toward zero.\<close>

definition trunc :: "real \<Rightarrow> int" where
  "trunc r = (if 0 \<le> r then \<lfloor>r\<rfloor> else \<lceil>r\<rceil>)"

text \<open>
  The cast \<open>(int)x\<close> to a 32-bit \<open>int\<close>. Where the truncated value does not fit (and
  for the infinities and NaN) the result is \<open>-2^31\<close>; whatever a platform delivers
  there is a 32-bit value, hence not the truncation of \<open>x\<close>.
\<close>

definition c_int :: "cfloat \<Rightarrow> int" where
  "c_int x =
     (case x of
        Fin r \<Rightarrow> (if - (2 ^ 31) \<le> trunc r \<and> trunc r < 2 ^ 31 then trunc r else - (2 ^ 31))
      | _ \<Rightarrow> - (2 ^ 31))"

text \<open>\<open>int(Z < a)\<close>: the truth value as 0 or 1.\<close>

definition int_of_bool :: "bool \<Rightarrow> int" where
  "int_of_bool p = (if p then 1 else 0)"

text \<open>Cython's \<open>x / y\<close> on C floats with the zero check of \<open>cdivision=False\<close>.\<close>

definition cy_div :: "cfloat \<Rightarrow> cfloat \<Rightarrow> error + cfloat" where
  "cy_div x y = (if y = Fin 0 then Inl ZeroDivisionError else Inr (x / y))"

definition bind_result :: "error + 'a \<Rightarrow> ('a \<Rightarrow> error + 'b) \<Rightarrow> error + 'b" where
  "bind_result m k = (case m of Inl err \<Rightarrow> Inl err | Inr v \<Rightarrow> k v)"

subsection \<open>The profile and the loop\<close>

text \<open>\<open>dibs = [dib_int, dib, dib / 12.0]\<close>; \<open>stem_heights\<close> maps the height to it.\<close>

type_synonym dibs = "int \<times> cfloat \<times> cfloat"

type_synonym profile = "(int \<times> dibs) list"

text \<open>
  \<open>for stem_height in range(1, top_height + 1)\<close>: the body runs on each height in order
  and an exception raised by the body leaves the function.
\<close>

fun for_range :: "(int \<Rightarrow> profile \<Rightarrow> error + profile) \<Rightarrow> int list \<Rightarrow> profile \<Rightarrow> error + profile" where
  "for_range body [] stem_heights = Inr stem_heights"
| "for_range body (stem_height # rest) stem_heights =
     (case body stem_height stem_heights of
        Inl err \<Rightarrow> Inl err
      | Inr stem_heights' \<Rightarrow> for_range body rest stem_heights')"

subsection \<open>The four evaluators\<close>

definition czaplewski_step ::
  "cfloat \<Rightarrow> cfloat \<Rightarrow> cfloat \<Rightarrow> cfloat \<Rightarrow> cfloat \<Rightarrow> cfloat \<Rightarrow> cfloat \<Rightarrow> cfloat \<Rightarrow>
   int \<Rightarrow> profile \<Rightarrow> error + profile" where
  "czaplewski_step dbh total_height a b c d e f stem_height stem_heights =
     bind_result (cy_div (of_c_int stem_height) total_height) (\<lambda>Z.
     bind_result (cy_div (of_c_int (stem_height ^ 2)) (fpow total_height (Fin 2))) (\<lambda>Z2.
       let I1 = int_of_bool (flt Z a);
           I2 = int_of_bool (flt Z b);
           dib = dbh * fsqrt ((c * (Z - Fin 1)) + (d * (Z2 - Fin 1))
                   + (e * (fpow (a - Z) (Fin 2)) * of_c_int I1)
                   + (f * (fpow (b - Z) (Fin 2)) * of_c_int I2));
           dib_int = c_int dib;
           dibs = (dib_int, dib, dib / Fin 12)
       in Inr (AList.update stem_height dibs stem_heights)))"

definition czaplewski_heights ::
  "cfloat \<Rightarrow> cfloat \<Rightarrow> cfloat \<Rightarrow> cfloat \<Rightarrow> cfloat \<Rightarrow> cfloat \<Rightarrow> cfloat \<Rightarrow> cfloat \<Rightarrow>
   error + profile" where
  "czaplewski_heights dbh total_height a b c d e f =
     (let top_height = c_int total_height
      in for_range (czaplewski_step dbh total_height a b c d e f) [1..top_height] [])"

definition kozak1969_step ::
  "cfloat \<Rightarrow> cfloat \<Rightarrow> cfloat \<Rightarrow> cfloat \<Rightarrow> cfloat \<Rightarrow> int \<Rightarrow> profile \<Rightarrow> error + profile" where
  "kozak1969_step dbh total_height a b c stem_height stem_heights =
     bind_result (cy_div (of_c_int stem_height) total_height) (\<lambda>Z.
     bind_result (cy_div (of_c_int (stem_height ^ 2)) (fpow total_height (Fin 2))) (\<lambda>Z2.
       let dib = dbh * fsqrt (a + (b * Z) + (c * Z2));
           dib_int = c_int dib;
           dibs = (dib_int, dib, dib / Fin 12)
       in Inr (AList.update stem_height dibs stem_heights)))"

definition kozak1969_heights ::
  "cfloat \<Rightarrow> cfloat \<Rightarrow> cfloat \<Rightarrow> cfloat \<Rightarrow> cfloat \<Rightarrow> error + profile" where
  "kozak1969_heights dbh total_height a b c =
     (let top_height = c_int total_height
      in for_range (kozak1969_step dbh total_height a b c) [1..top_height] [])"

definition kozak1988_step ::
  "cfloat \<Rightarrow> cfloat \<Rightarrow> cfloat \<Rightarrow> cfloat \<Rightarrow> cfloat \<Rightarrow> cfloat \<Rightarrow> cfloat \<Rightarrow> cfloat \<Rightarrow>
   cfloat \<Rightarrow> cfloat \<Rightarrow> cfloat \<Rightarrow> int \<Rightarrow> profile \<Rightarrow> error + profile" where
  "kozak1988_step dbh total_height a b c d e f g h i stem_height stem_heights =
     bind_result (cy_div (of_c_int stem_height) total_height) (\<lambda>Z.
     bind_result (cy_div (Fin 1 - (fpow Z (Fin 0.5))) (Fin 1 - (fpow d (Fin 0.5)))) (\<lambda>q.
     bind_result (cy_div dbh total_height) (\<lambda>r.
       let dib = (a * (fpow dbh b) * (fpow c dbh))
                   * fpow q ((e * (fpow Z (Fin 2))) + (f * flog (Z + Fin 0.001))
                             + (g * (fpow Z (Fin 0.5))) + (h * fexp Z) + (i * r));
           dib_int = c_int dib;
           dibs = (dib_int, dib, dib / Fin 12)
       in Inr (AList.update stem_height dibs stem_heights))))"

definition kozak1988_heights ::
  "cfloat \<Rightarrow> cfloat \<Rightarrow> cfloat \<Rightarrow> cfloat \<Rightarrow> cfloat \<Rightarrow> cfloat \<Rightarrow> cfloat \<Rightarrow> cfloat \<Rightarrow>
   cfloat \<Rightarrow> cfloat \<Rightarrow> cfloat \<Rightarrow> error + profile" where
  "kozak1988_heights dbh total_height a b c d e f g h i =
     (let top_height = c_int total_height
      in for_range (kozak1988_step dbh total_height a b c d e f g h i) [1..top_height] [])"

definition wensel_step ::
  "cfloat \<Rightarrow> cfloat \<Rightarrow> cfloat \<Rightarrow> cfloat \<Rightarrow> cfloat \<Rightarrow> cfloat \<Rightarrow> cfloat \<Rightarrow>
   int \<Rightarrow> profile \<Rightarrow> error + profile" where
  "wensel_step dbh total_height a b c d e stem_height stem_heights =
     bind_result (cy_div (of_c_int (stem_height - 1)) (total_height - Fin 1)) (\<lambda>Z.
       let X = (c + (d * dbh) + (e * total_height))
       in bind_result (cy_div a X) (\<lambda>q.
         let dib = dbh * (a - (X * (flog (Fin 1 - (fpow Z b) * (Fin 1 - fexp q)))));
             dib_int = c_int dib;
             dibs = (dib_int, dib, dib / Fin 12)
         in Inr (AList.update stem_height dibs stem_heights)))"

definition wensel_heights ::
  "cfloat \<Rightarrow> cfloat \<Rightarrow> cfloat \<Rightarrow> cfloat \<Rightarrow> cfloat \<Rightarrow> cfloat \<Rightarrow> cfloat \<Rightarrow> error + profile" where
  "wensel_heights dbh total_height a b c d e =
     (let top_height = c_int total_height
      in for_range (wensel_step dbh total_height a b c d e) [1..top_height] [])"

subsection \<open>Exact values\<close>

text \<open>
  The numbers a binary32 variable can hold: \<open>m * 2^e\<close> with a significand below
  \<open>2^24\<close> and an exponent from the subnormal range up to the largest finite value.
  An IEEE operation whose exact result is such a number returns it unchanged.
\<close>

definition binary32 :: "real \<Rightarrow> bool" where
  "binary32 x =
     (\<exists>m e :: int. \<bar>m\<bar> < 2 ^ 24 \<and> - 149 \<le> e \<and> e \<le> 104 \<and> x = of_int m * 2 powr of_int e)"

text \<open>
  \<open>X = c + (d * dbh) + (e * total_height)\<close> of \<open>wensel_heights\<close> is computed without
  rounding when each of its two products and two sums is a binary32 number; then the
  \<open>X\<close> of the machine is the \<open>X\<close> of the reals.
\<close>

definition X_unrounded :: "real \<Rightarrow> real \<Rightarrow> real \<Rightarrow> real \<Rightarrow> real \<Rightarrow> bool" where
  "X_unrounded dbh total_height c d e =
     (binary32 (d * dbh) \<and> binary32 (c + d * dbh) \<and> binary32 (e * total_height)
      \<and> binary32 (c + d * dbh + e * total_height))"

text \<open>
  What the model computes for the diameter at height \<open>h\<close> in \<open>kozak1969_heights\<close> and in
  \<open>wensel_heights\<close>, for finite arguments, in closed form. The two closed forms serve
  the proofs of the special cases below, where they reduce to an exact value.
\<close>

definition kozak1969_dib_spec ::
  "real \<Rightarrow> real \<Rightarrow> real \<Rightarrow> real \<Rightarrow> real \<Rightarrow> int \<Rightarrow> cfloat" where
  "kozak1969_dib_spec dbh total_height a b c h =
     (let Z = of_int h / total_height;
          Z2 = Z ^ 2
      in Fin dbh * fsqrt (Fin (a + b * Z + c * Z2)))"

definition wensel_dib_spec ::
  "real \<Rightarrow> real \<Rightarrow> real \<Rightarrow> real \<Rightarrow> real \<Rightarrow> real \<Rightarrow> real \<Rightarrow> int \<Rightarrow> cfloat" where
  "wensel_dib_spec dbh total_height a b c d e h =
     (let Z = (of_int h - 1) / (total_height - 1);
          X = c + d * dbh + e * total_height
      in Fin dbh * (Fin a - Fin X * flog (Fin 1 - fpow (Fin Z) (Fin b)
                                                 * (Fin 1 - fexp (Fin a / Fin X)))))"

text \<open>
  The list stored for a diameter, \<open>[int(dib), dib, dib / 12.0]\<close>, and the property of
  an entry of a profile to be such a list.
\<close>

definition emitted :: "cfloat \<Rightarrow> dibs" where
  "emitted dib = (c_int dib, dib, dib / Fin 12)"

definition is_emitted :: "int \<times> dibs \<Rightarrow> bool" where
  "is_emitted entry = (snd entry = emitted (fst (snd (snd entry))))"

section \<open>Auxiliary facts\<close>

subsection \<open>Conversions, the dict and the loop\<close>

lemma minus_Fin [simp]: "Fin x - Fin y = Fin (x - y)"
  by (simp add: minus_cfloat_def)

lemma c_int_floor: "0 \<le> H \<Longrightarrow> H < 2 ^ 31 \<Longrightarrow> c_int (Fin H) = \<lfloor>H\<rfloor>"
  by (simp add: c_int_def trunc_def floor_less_iff le_floor_iff)

lemma c_int_ge_1D:
  "1 \<le> c_int x \<Longrightarrow> \<exists>H. x = Fin H \<and> 1 \<le> H \<and> H < 2 ^ 31 \<and> c_int x = \<lfloor>H\<rfloor>"
  by (cases x) (auto simp: c_int_def trunc_def floor_less_iff le_floor_iff ceiling_le_iff split: if_splits)

lemma c_int_lt_1: "flt x (Fin 1) \<Longrightarrow> c_int x \<le> 0"
  by (cases x) (auto simp: c_int_def trunc_def floor_le_iff  ceiling_le_iff split: if_splits)

lemma update_fresh: "k \<notin> fst ` set al \<Longrightarrow> AList.update k v al = al @ [(k, v)]"
  by (induction al) auto

lemma for_range_append:
  "for_range body (xs @ ys) s = bind_result (for_range body xs s) (for_range body ys)"
  by (induction xs arbitrary: s) (auto simp: bind_result_def split: sum.splits)

lemma for_range_keys:
  assumes "\<And>h s. 1 \<le> h \<Longrightarrow> h \<le> n \<Longrightarrow> \<exists>v. body h s = Inr (AList.update h v s)"
  shows "\<exists>p. for_range body [1..n] [] = Inr p \<and> map fst p = [1..n]"
proof (cases "0 \<le> n")
  case False
  then show ?thesis by simp
next
  case True
  then show ?thesis using assms
  proof (induction n rule: int_ge_induct)
    case base
    show ?case by simp
  next
    case (step m)
    from step.IH step.prems obtain p where p: "for_range body [1..m] [] = Inr p" "map fst p = [1..m]"
      by force
    from step.prems[of "m + 1" p] step.hyps obtain v where v: "body (m + 1) p = Inr (AList.update (m + 1) v p)"
      by auto
    have fresh: "m + 1 \<notin> fst ` set p"
      using p(2) by (metis atLeastAtMost_iff list.set_map set_upto zle_add1_eq_le less_irrefl)
    have "[1..m + 1] = [1..m] @ [m + 1]"
      using step.hyps by (simp add: upto_rec2)
    then show ?case
      using p v fresh by (simp add: for_range_append bind_result_def update_fresh)
  qed
qed

lemma for_range_values:
  assumes "\<And>h s. 1 \<le> h \<Longrightarrow> h \<le> n \<Longrightarrow> body h s = Inr (AList.update h (g h) s)"
  shows "for_range body [1..n] [] = Inr (map (\<lambda>h. (h, g h)) [1..n])"
proof (cases "0 \<le> n")
  case False
  then show ?thesis by simp
next
  case True
  then show ?thesis using assms
  proof (induction n rule: int_ge_induct)
    case base
    show ?case by simp
  next
    case (step m)
    let ?p = "map (\<lambda>h. (h, g h)) [1..m]"
    have p: "for_range body [1..m] [] = Inr ?p"
      using step.IH step.prems by force
    have v: "body (m + 1) ?p = Inr (AList.update (m + 1) (g (m + 1)) ?p)"
      using step.prems[of "m + 1" ?p] step.hyps by auto
    have fresh: "m + 1 \<notin> fst ` set ?p"
      by (auto simp: image_iff)
    have "[1..m + 1] = [1..m] @ [m + 1]"
      using step.hyps by (simp add: upto_rec2)
    then show ?case
      using p v fresh by (simp add: for_range_append bind_result_def update_fresh)
  qed
qed

lemma map_of_tabulate:
  "h \<in> set hs \<Longrightarrow> map_of (map (\<lambda>h. (h, g h)) hs) h = Some (g h)"
  by (induction hs) auto

lemma set_update_subset: "set (AList.update k v al) \<subseteq> insert (k, v) (set al)"
  by (induction al) auto

lemma for_range_emitted:
  assumes "\<And>h s s'. body h s = Inr s' \<Longrightarrow> \<exists>dib. s' = AList.update h (emitted dib) s"
    and "for_range body hs s = Inr p" and "\<forall>entry\<in>set s. is_emitted entry"
  shows "\<forall>entry\<in>set p. is_emitted entry"
  using assms(2,3)
proof (induction hs arbitrary: s)
  case Nil
  then show ?case by simp
next
  case (Cons h hs)
  from Cons.prems(1) obtain s' where s': "body h s = Inr s'" "for_range body hs s' = Inr p"
    by (auto split: sum.splits)
  from assms(1)[OF s'(1)] obtain dib where "s' = AList.update h (emitted dib) s" by blast
  moreover have "is_emitted (h, emitted dib)"
    by (simp add: is_emitted_def emitted_def)
  ultimately have "\<forall>entry\<in>set s'. is_emitted entry"
    using Cons.prems(2) set_update_subset[of h "emitted dib" s] by blast
  then show ?case using Cons.IH[OF s'(2)] by blast
qed

subsection \<open>One iteration of each loop\<close>

lemma fpow_Fin_2 [simp]: "fpow (Fin x) (Fin 2) = Fin (x ^ 2)"
  by (simp add: is_int_def int_pow_def)

declare fpow.simps [simp del]

lemma cy_div_Fin [simp]: "y \<noteq> 0 \<Longrightarrow> cy_div (Fin x) (Fin y) = Inr (Fin (x / y))"
  by (simp add: cy_div_def)

lemma cy_div_zero [simp]: "cy_div x (Fin 0) = Inl ZeroDivisionError"
  by (simp add: cy_div_def)

lemma bind_result_simps [simp]:
  "bind_result (Inl err) k = Inl err" "bind_result (Inr v) k = k v"
  by (simp_all add: bind_result_def)

lemma czaplewski_step_emitted:
  "czaplewski_step dbh total_height a b c d e f h s = Inr s' \<Longrightarrow>
   \<exists>dib. s' = AList.update h (emitted dib) s"
  by (auto simp: czaplewski_step_def bind_result_def emitted_def Let_def split: sum.splits)

lemma czaplewski_step_ok:
  "H \<noteq> 0 \<Longrightarrow> \<exists>v. czaplewski_step dbh (Fin H) a b c d e f h s = Inr (AList.update h v s)"
  by (simp add: czaplewski_step_def of_c_int_def Let_def) blast

lemma kozak1969_step_emitted:
  "kozak1969_step dbh total_height a b c h s = Inr s' \<Longrightarrow>
   \<exists>dib. s' = AList.update h (emitted dib) s"
  by (auto simp: kozak1969_step_def bind_result_def emitted_def Let_def split: sum.splits)

lemma kozak1969_step_ok:
  "H \<noteq> 0 \<Longrightarrow> \<exists>v. kozak1969_step dbh (Fin H) a b c h s = Inr (AList.update h v s)"
  by (simp add: kozak1969_step_def of_c_int_def Let_def) blast

lemma kozak1969_step_Fin:
  "H \<noteq> 0 \<Longrightarrow>
   kozak1969_step (Fin dbh) (Fin H) (Fin a) (Fin b) (Fin c) h s =
   Inr (AList.update h (emitted (kozak1969_dib_spec dbh H a b c h)) s)"
  by (simp add: kozak1969_step_def kozak1969_dib_spec_def of_c_int_def
      emitted_def Let_def power_divide)

lemma fpow_Fin_half [simp]: "fpow (Fin x) (Fin (1 / 2)) = (if 0 \<le> x then Fin (sqrt x) else NaN)"
proof -
  have "\<not> is_int (1 / 2)"
    by (simp add: is_int_def)
  then show ?thesis
    by (auto simp: fpow.simps powr_half_sqrt)
qed

lemma kozak1988_divisor:
  "d \<noteq> 1 \<Longrightarrow> Fin 1 - fpow (Fin d) (Fin (1 / 2)) \<noteq> Fin 0"
  by (simp add: minus_cfloat_def)

lemma kozak1988_step_emitted:
  "kozak1988_step dbh total_height a b c d e f g h i ht s = Inr s' \<Longrightarrow>
   \<exists>dib. s' = AList.update ht (emitted dib) s"
  by (auto simp: kozak1988_step_def bind_result_def emitted_def Let_def split: sum.splits)

lemma kozak1988_step_ok:
  "H \<noteq> 0 \<Longrightarrow> d \<noteq> 1 \<Longrightarrow>
   \<exists>v. kozak1988_step dbh (Fin H) a b c (Fin d) e f g h i ht s = Inr (AList.update ht v s)"
  using kozak1988_divisor[of d]
  by (simp add: kozak1988_step_def of_c_int_def Let_def cy_div_def) blast

lemma kozak1988_step_raises:
  "kozak1988_step dbh total_height a b c (Fin 1) e f g h i ht s = Inl ZeroDivisionError"
  by (simp add: kozak1988_step_def cy_div_def minus_cfloat_def)

lemma wensel_step_emitted:
  "wensel_step dbh total_height a b c d e h s = Inr s' \<Longrightarrow>
   \<exists>dib. s' = AList.update h (emitted dib) s"
  by (auto simp: wensel_step_def bind_result_def emitted_def Let_def split: sum.splits)

lemma wensel_step_ok:
  "H \<noteq> 1 \<Longrightarrow> c + d * dbh + e * H \<noteq> 0 \<Longrightarrow>
   \<exists>v. wensel_step (Fin dbh) (Fin H) a b (Fin c) (Fin d) (Fin e) h s = Inr (AList.update h v s)"
  by (simp add: wensel_step_def of_c_int_def Let_def cy_div_def) blast

lemma wensel_step_Fin:
  "H \<noteq> 1 \<Longrightarrow> c + d * dbh + e * H \<noteq> 0 \<Longrightarrow>
   wensel_step (Fin dbh) (Fin H) (Fin a) (Fin b) (Fin c) (Fin d) (Fin e) h s =
   Inr (AList.update h (emitted (wensel_dib_spec dbh H a b c d e h)) s)"
  by (simp add: wensel_step_def wensel_dib_spec_def of_c_int_def Let_def emitted_def)

lemma wensel_step_raises_height:
  "wensel_step dbh (Fin 1) a b c d e h s = Inl ZeroDivisionError"
  by (simp add: wensel_step_def)

lemma wensel_step_raises_X:
  "c + d * dbh + e * H = 0 \<Longrightarrow>
   wensel_step (Fin dbh) (Fin H) a b (Fin c) (Fin d) (Fin e) h s = Inl ZeroDivisionError"
  by (simp add: wensel_step_def cy_div_def Let_def)

subsection \<open>The loops\<close>

lemma czaplewski_heights_keys:
  "\<exists>p. czaplewski_heights dbh total_height a b c d e f = Inr p
       \<and> map fst p = [1..c_int total_height]"
  unfolding czaplewski_heights_def Let_def
proof (rule for_range_keys)
  fix h :: int and s :: profile
  assume "1 \<le> h" "h \<le> c_int total_height"
  then have "1 \<le> c_int total_height" by simp
  from c_int_ge_1D[OF this] obtain H where "total_height = Fin H" "1 \<le> H" by blast
  then show "\<exists>v. czaplewski_step dbh total_height a b c d e f h s = Inr (AList.update h v s)"
    using czaplewski_step_ok[of H] by simp
qed

lemma kozak1969_heights_keys:
  "\<exists>p. kozak1969_heights dbh total_height a b c = Inr p \<and> map fst p = [1..c_int total_height]"
  unfolding kozak1969_heights_def Let_def
proof (rule for_range_keys)
  fix h :: int and s :: profile
  assume "1 \<le> h" "h \<le> c_int total_height"
  then have "1 \<le> c_int total_height" by simp
  from c_int_ge_1D[OF this] obtain H where "total_height = Fin H" "1 \<le> H" by blast
  then show "\<exists>v. kozak1969_step dbh total_height a b c h s = Inr (AList.update h v s)"
    using kozak1969_step_ok[of H] by simp
qed

lemma kozak1969_heights_Fin:
  "kozak1969_heights (Fin dbh) (Fin H) (Fin a) (Fin b) (Fin c) =
   Inr (map (\<lambda>h. (h, emitted (kozak1969_dib_spec dbh H a b c h))) [1..c_int (Fin H)])"
  unfolding kozak1969_heights_def Let_def
proof (rule for_range_values)
  fix h :: int and s :: profile
  assume "1 \<le> h" "h \<le> c_int (Fin H)"
  then have "1 \<le> c_int (Fin H)" by simp
  from c_int_ge_1D[OF this] have "H \<noteq> 0" by auto
  then show "kozak1969_step (Fin dbh) (Fin H) (Fin a) (Fin b) (Fin c) h s
     = Inr (AList.update h (emitted (kozak1969_dib_spec dbh H a b c h)) s)"
    by (rule kozak1969_step_Fin)
qed

lemma kozak1988_heights_keys:
  assumes "H < 1 \<or> d \<noteq> 1"
  shows "\<exists>p. kozak1988_heights dbh (Fin H) a b c (Fin d) e f g h i = Inr p
       \<and> map fst p = [1..c_int (Fin H)]"
  unfolding kozak1988_heights_def Let_def
proof (rule for_range_keys)
  fix ht :: int and s :: profile
  assume "1 \<le> ht" "ht \<le> c_int (Fin H)"
  then have "1 \<le> c_int (Fin H)" by simp
  from c_int_ge_1D[OF this] have "1 \<le> H" by auto
  with assms have "H \<noteq> 0" "d \<noteq> 1" by auto
  then show "\<exists>v. kozak1988_step dbh (Fin H) a b c (Fin d) e f g h i ht s
     = Inr (AList.update ht v s)"
    by (rule kozak1988_step_ok)
qed

lemma wensel_heights_keys:
  assumes "H < 1 \<or> (H \<noteq> 1 \<and> c + d * dbh + e * H \<noteq> 0)"
  shows "\<exists>p. wensel_heights (Fin dbh) (Fin H) a b (Fin c) (Fin d) (Fin e) = Inr p
       \<and> map fst p = [1..c_int (Fin H)]"
  unfolding wensel_heights_def Let_def
proof (rule for_range_keys)
  fix h :: int and s :: profile
  assume "1 \<le> h" "h \<le> c_int (Fin H)"
  then have "1 \<le> c_int (Fin H)" by simp
  from c_int_ge_1D[OF this] have "1 \<le> H" by auto
  with assms have "H \<noteq> 1" "c + d * dbh + e * H \<noteq> 0" by auto
  then show "\<exists>v. wensel_step (Fin dbh) (Fin H) a b (Fin c) (Fin d) (Fin e) h s
     = Inr (AList.update h v s)"
    by (rule wensel_step_ok)
qed

lemma wensel_heights_Fin:
  assumes "H < 1 \<or> (H \<noteq> 1 \<and> c + d * dbh + e * H \<noteq> 0)"
  shows "wensel_heights (Fin dbh) (Fin H) (Fin a) (Fin b) (Fin c) (Fin d) (Fin e) =
   Inr (map (\<lambda>h. (h, emitted (wensel_dib_spec dbh H a b c d e h))) [1..c_int (Fin H)])"
  unfolding wensel_heights_def Let_def
proof (rule for_range_values)
  fix h :: int and s :: profile
  assume "1 \<le> h" "h \<le> c_int (Fin H)"
  then have "1 \<le> c_int (Fin H)" by simp
  from c_int_ge_1D[OF this] have "1 \<le> H" by auto
  with assms have "H \<noteq> 1" "c + d * dbh + e * H \<noteq> 0" by auto
  then show "wensel_step (Fin dbh) (Fin H) (Fin a) (Fin b) (Fin c) (Fin d) (Fin e) h s
     = Inr (AList.update h (emitted (wensel_dib_spec dbh H a b c d e h)) s)"
    by (rule wensel_step_Fin)
qed

lemma c_int_floor': "H < 2 ^ 31 \<Longrightarrow> [1..c_int (Fin H)] = [1..\<lfloor>H\<rfloor>]"
proof (cases "0 \<le> H")
  case True
  assume "H < 2 ^ 31"
  with True show ?thesis by (simp add: c_int_floor)
next
  case False
  then have "flt (Fin H) (Fin 1)" by simp
  from c_int_lt_1[OF this] False show ?thesis
    by (simp add: floor_less_iff)
qed

lemma heights_empty:
  assumes "c_int total_height \<le> 0"
  shows "czaplewski_heights dbh total_height a b c d e f = Inr []"
    and "kozak1969_heights dbh total_height a b c = Inr []"
    and "kozak1988_heights dbh total_height a b c d e f g h i = Inr []"
    and "wensel_heights dbh total_height a b c d e = Inr []"
  using assms
  by (simp_all add: czaplewski_heights_def kozak1969_heights_def kozak1988_heights_def
      wensel_heights_def)

lemma c_int_zero: "c_int (Fin 0) = 0"
  by (simp add: c_int_def trunc_def)

lemma c_int_too_large: "c_int (Fin 2147483648) = - 2147483648"
  by (simp add: c_int_def trunc_def)

lemma c_int_trunc:
  assumes "- (2 ^ 31) - 1 < r" "r < 2 ^ 31"
  shows "(0 \<le> r \<longrightarrow> c_int (Fin r) = \<lfloor>r\<rfloor>) \<and> (r < 0 \<longrightarrow> c_int (Fin r) = \<lceil>r\<rceil>)"
  using assms
  by (auto simp: c_int_def trunc_def floor_less_iff le_floor_iff ceiling_less_iff le_ceiling_iff)

lemma tabulate_lookup:
  assumes "1 \<le> total_height" "total_height < 2 ^ 31" "h \<in> {1..\<lfloor>total_height\<rfloor>}"
  shows "map_of (map (\<lambda>h. (h, emitted (g h))) [1..c_int (Fin total_height)]) h
       = Some (c_int (g h), g h, g h / Fin 12)"
  using assms by (simp add: c_int_floor map_of_tabulate emitted_def)

subsection \<open>The entries of a returned profile\<close>

lemma czaplewski_heights_emitted:
  assumes "czaplewski_heights dbh total_height a b c d e f = Inr p"
  shows "\<forall>entry\<in>set p. is_emitted entry"
proof (rule for_range_emitted)
  show "for_range (czaplewski_step dbh total_height a b c d e f) [1..c_int total_height] [] = Inr p"
    using assms by (simp add: czaplewski_heights_def)
qed (auto dest: czaplewski_step_emitted)

lemma kozak1969_heights_emitted:
  assumes "kozak1969_heights dbh total_height a b c = Inr p"
  shows "\<forall>entry\<in>set p. is_emitted entry"
proof (rule for_range_emitted)
  show "for_range (kozak1969_step dbh total_height a b c) [1..c_int total_height] [] = Inr p"
    using assms by (simp add: kozak1969_heights_def)
qed (auto dest: kozak1969_step_emitted)

lemma kozak1988_heights_emitted:
  assumes "kozak1988_heights dbh total_height a b c d e f g h i = Inr p"
  shows "\<forall>entry\<in>set p. is_emitted entry"
proof (rule for_range_emitted)
  show "for_range (kozak1988_step dbh total_height a b c d e f g h i) [1..c_int total_height] []
      = Inr p"
    using assms by (simp add: kozak1988_heights_def)
qed (auto dest: kozak1988_step_emitted)

lemma wensel_heights_emitted:
  assumes "wensel_heights dbh total_height a b c d e = Inr p"
  shows "\<forall>entry\<in>set p. is_emitted entry"
proof (rule for_range_emitted)
  show "for_range (wensel_step dbh total_height a b c d e) [1..c_int total_height] [] = Inr p"
    using assms by (simp add: wensel_heights_def)
qed (auto dest: wensel_step_emitted)

lemma heights_emitted:
  assumes "czaplewski_heights dbh total_height a b c d e f = Inr p
         \<or> kozak1969_heights dbh total_height a b c = Inr p
         \<or> kozak1988_heights dbh total_height a b c d e f g h i = Inr p
         \<or> wensel_heights dbh total_height a b c d e = Inr p"
  shows "\<forall>entry\<in>set p. is_emitted entry"
  using assms
proof (elim disjE)
  assume "czaplewski_heights dbh total_height a b c d e f = Inr p"
  then show ?thesis by (rule czaplewski_heights_emitted)
next
  assume "kozak1969_heights dbh total_height a b c = Inr p"
  then show ?thesis by (rule kozak1969_heights_emitted)
next
  assume "kozak1988_heights dbh total_height a b c d e f g h i = Inr p"
  then show ?thesis by (rule kozak1988_heights_emitted)
next
  assume "wensel_heights dbh total_height a b c d e = Inr p"
  then show ?thesis by (rule wensel_heights_emitted)
qed

subsection \<open>Special cases of the formulas\<close>

lemma kozak1969_dib_spec_unit: "kozak1969_dib_spec dbh total_height 1 0 0 h = Fin dbh"
  by (simp add: kozak1969_dib_spec_def)

lemma wensel_dib_spec_height_one:
  assumes "total_height \<noteq> 1" "0 < b" "c + d * dbh + e * total_height \<noteq> 0"
  shows "wensel_dib_spec dbh total_height a b c d e 1 = Fin (dbh * a)"
  using assms by (simp add: wensel_dib_spec_def fpow.simps Let_def)

subsection \<open>A loop that may raise\<close>

lemma binary32_of_int: "\<bar>n\<bar> < 2 ^ 24 \<Longrightarrow> binary32 (of_int n)"
  unfolding binary32_def by (rule exI[of _ n], rule exI[of _ 0]) simp

lemma for_range_keys_returned:
  assumes step: "\<And>h s s'. body h s = Inr s' \<Longrightarrow> \<exists>v. s' = AList.update h v s"
  shows "for_range body [1..n] [] = Inr p \<Longrightarrow> map fst p = [1..n]"
proof (cases "0 \<le> n")
  case False
  assume "for_range body [1..n] [] = Inr p"
  with False show ?thesis by simp
next
  case True
  assume "for_range body [1..n] [] = Inr p"
  with True show ?thesis
  proof (induction n arbitrary: p rule: int_ge_induct)
    case base
    then show ?case by simp
  next
    case (step m)
    have split: "[1..m + 1] = [1..m] @ [m + 1]"
      using step.hyps by (simp add: upto_rec2)
    from step.prems obtain p' where p': "for_range body [1..m] [] = Inr p'"
      and last: "body (m + 1) p' = Inr p"
      by (auto simp: split for_range_append bind_result_def split: sum.splits)
    from step.IH[OF p'] have keys: "map fst p' = [1..m]" .
    from assms[OF last] obtain v where v: "p = AList.update (m + 1) v p'" by blast
    have "m + 1 \<notin> fst ` set p'"
      using keys by (metis atLeastAtMost_iff list.set_map set_upto zle_add1_eq_le less_irrefl)
    then show ?case
      using v keys split by (simp add: update_fresh)
  qed
qed

lemma wensel_heights_keys_returned:
  assumes "wensel_heights dbh total_height a b c d e = Inr p"
  shows "map fst p = [1..c_int total_height]"
proof (rule for_range_keys_returned)
  show "for_range (wensel_step dbh total_height a b c d e) [1..c_int total_height] [] = Inr p"
    using assms by (simp add: wensel_heights_def)
next
  fix h s s'
  assume "wensel_step dbh total_height a b c d e h s = Inr s'"
  from wensel_step_emitted[OF this] show "\<exists>v. s' = AList.update h v s" by blast
qed

lemma wensel_heights_raises_or_keys:
  "wensel_heights dbh total_height a b c d e = Inl ZeroDivisionError
   \<or> (\<exists>p. wensel_heights dbh total_height a b c d e = Inr p
          \<and> map fst p = [1..c_int total_height])"
proof (cases "wensel_heights dbh total_height a b c d e")
  case (Inl err)
  then show ?thesis by (cases err) simp
next
  case (Inr p)
  then show ?thesis using wensel_heights_keys_returned[OF Inr] by simp
qed

section \<open>The claims\<close>

subsection \<open>The keys of the profile\<close>

text \<open>
  C1, as amended. For every \<open>total_height\<close> below \<open>2^31\<close> (in particular for every
  positive one below \<open>2^31\<close>) and every \<open>dbh\<close>, \<open>czaplewski_heights\<close> and
  \<open>kozak1969_heights\<close> return a profile whose keys are, in insertion order,
  \<open>1, 2, ..., floor(total_height)\<close>: the key set is exactly \<open>{1..floor(total_height)}\<close>,
  with no key 0 and no key above \<open>total_height\<close>. \<open>kozak1988_heights\<close> does so when
  \<open>total_height < 1\<close> or \<open>d \<noteq> 1\<close>. \<open>wensel_heights\<close> either raises
  \<open>ZeroDivisionError\<close> or returns such a profile; it returns one when
  \<open>total_height < 1\<close>, and when \<open>total_height \<noteq> 1\<close> and
  \<open>X = c + d * dbh + e * total_height\<close> is computed without rounding and is not zero.
  The coefficients not named are arbitrary C floats.

  None of this depends on rounding. The divisors \<open>total_height\<close> and
  \<open>total_height ** 2\<close> are at least 1 when the loop runs; \<open>1 - d ** 0.5\<close>, a double, is
  zero for \<open>d = 1\<close> only; \<open>total_height - 1\<close> is zero for \<open>total_height = 1\<close> only; and
  an \<open>X\<close> whose operations do not round is the \<open>X\<close> of the reals. (An \<open>X\<close> whose
  operations round can be zero where the real one is not, and the call raises.)
\<close>

theorem profile_keys:
  assumes "total_height < 2 ^ 31"
  shows "(\<exists>p. czaplewski_heights dbh (Fin total_height) a b c d e f = Inr p
             \<and> map fst p = [1..\<lfloor>total_height\<rfloor>])
       \<and> (\<exists>p. kozak1969_heights dbh (Fin total_height) a b c = Inr p
             \<and> map fst p = [1..\<lfloor>total_height\<rfloor>])
       \<and> (total_height < 1 \<or> dk \<noteq> 1 \<longrightarrow>
            (\<exists>p. kozak1988_heights dbh (Fin total_height) a b c (Fin dk) e f g h i = Inr p
                \<and> map fst p = [1..\<lfloor>total_height\<rfloor>]))
       \<and> (wensel_heights dbh (Fin total_height) a b c d e = Inl ZeroDivisionError
            \<or> (\<exists>p. wensel_heights dbh (Fin total_height) a b c d e = Inr p
                   \<and> map fst p = [1..\<lfloor>total_height\<rfloor>]))
       \<and> (total_height < 1
            \<or> (total_height \<noteq> 1 \<and> X_unrounded dbhw total_height cw dw ew
                \<and> cw + dw * dbhw + ew * total_height \<noteq> 0) \<longrightarrow>
            (\<exists>p. wensel_heights (Fin dbhw) (Fin total_height) a b (Fin cw) (Fin dw) (Fin ew) = Inr p
                \<and> map fst p = [1..\<lfloor>total_height\<rfloor>]))"
  using czaplewski_heights_keys[of dbh "Fin total_height" a b c d e f]
    kozak1969_heights_keys[of dbh "Fin total_height" a b c]
    kozak1988_heights_keys[of total_height dk dbh a b c e f g h i]
    wensel_heights_raises_or_keys[of dbh "Fin total_height" a b c d e]
    wensel_heights_keys[of total_height cw dw dbhw ew a b]
  by (simp only: c_int_floor'[OF assms]) blast

text \<open>The tree of height 37.6 has the 37 keys 1 to 37.\<close>

theorem profile_keys_witness:
  "(37.6 :: real) < 2 ^ 31 \<and> X_unrounded 20 37.6 1 0 0
   \<and> (\<exists>p. czaplewski_heights (Fin 20) (Fin 37.6) (Fin 0) (Fin 0) (Fin 1) (Fin 0) (Fin 0) (Fin 0)
            = Inr p
         \<and> map fst p = [1..37])
   \<and> (\<exists>p. kozak1969_heights (Fin 20) (Fin 37.6) (Fin 2) (Fin (- 1)) (Fin 0.1) = Inr p
         \<and> map fst p = [1..37])
   \<and> (\<exists>p. kozak1988_heights (Fin 20) (Fin 37.6) (Fin 1) (Fin 1) (Fin 1) (Fin 0) (Fin 1) (Fin 1)
            (Fin 1) (Fin 1) (Fin 1) = Inr p
         \<and> map fst p = [1..37])
   \<and> (\<exists>p. wensel_heights (Fin 20) (Fin 37.6) (Fin 1) (Fin 1) (Fin 1) (Fin 0) (Fin 0) = Inr p
         \<and> map fst p = [1..37])"
proof -
  have exact: "X_unrounded 20 37.6 1 0 0"
    using binary32_of_int[of 0] binary32_of_int[of 1] by (simp add: X_unrounded_def)
  show ?thesis
    using exact
      profile_keys[where total_height = "37.6" and dbh = "Fin 20" and a = "Fin 0"
        and b = "Fin 0" and c = "Fin 1" and d = "Fin 0" and e = "Fin 0" and f = "Fin 0"]
      profile_keys[where total_height = "37.6" and dbh = "Fin 20" and a = "Fin 2"
        and b = "Fin (- 1)" and c = "Fin 0.1"]
      profile_keys[where total_height = "37.6" and dbh = "Fin 20" and a = "Fin 1"
        and b = "Fin 1" and c = "Fin 1" and dk = 0 and e = "Fin 1" and f = "Fin 1"
        and g = "Fin 1" and h = "Fin 1" and i = "Fin 1"]
      profile_keys[where total_height = "37.6" and a = "Fin 1" and b = "Fin 1" and dbhw = 20
        and cw = 1 and dw = 0 and ew = 0]
    by simp
qed

text \<open>
  The claim as stated fails for the tree of height 1 (with \<open>dbh = 1\<close>, both positive):
  \<open>wensel_heights\<close> divides by \<open>total_height - 1\<close> in its first iteration and raises,
  so no profile is returned.
\<close>

theorem wensel_height_one_raises:
  "wensel_heights (Fin 1) (Fin 1) (Fin 1) (Fin 1) (Fin 1) (Fin 1) (Fin 1) = Inl ZeroDivisionError"
  by (simp add: wensel_heights_def c_int_def trunc_def upto_rec1 wensel_step_raises_height)

text \<open>
  The other conditions are needed as well: \<open>kozak1988_heights\<close> raises for \<open>d = 1\<close>,
  \<open>wensel_heights\<close> raises for \<open>X = 0\<close> (here \<open>c = d = e = 0\<close>), and a \<open>total_height\<close> of
  \<open>2^31\<close>, which no \<open>int\<close> holds, gives no key at all.
\<close>

lemma kozak1988_unit_d_raises:
  "kozak1988_heights (Fin 1) (Fin 1) (Fin 1) (Fin 1) (Fin 1) (Fin 1) (Fin 1) (Fin 1) (Fin 1)
     (Fin 1) (Fin 1) = Inl ZeroDivisionError"
  by (simp add: kozak1988_heights_def c_int_def trunc_def upto_rec1 kozak1988_step_raises)

lemma wensel_zero_X_raises:
  "wensel_heights (Fin 1) (Fin 2) (Fin 1) (Fin 1) (Fin 0) (Fin 0) (Fin 0) = Inl ZeroDivisionError"
  by (simp add: wensel_heights_def c_int_def trunc_def upto_rec1 wensel_step_raises_X)

lemma czaplewski_height_beyond_int:
  "czaplewski_heights (Fin 1) (Fin 2147483648) (Fin 0) (Fin 0) (Fin 0) (Fin 0) (Fin 0) (Fin 0)
     = Inr []"
  by (simp add: heights_empty c_int_too_large)

subsection \<open>The diameter stored at each height\<close>

text \<open>
  The diameter that an evaluator stores at a height (C2, C3, C4 and C5) is the result
  of the binary32 and binary64 operations of its formula and of the library's \<open>sqrt\<close>,
  \<open>pow\<close>, \<open>log\<close> and \<open>exp\<close>. It is the real number the formula denotes only where no
  operation rounds or overflows; \<open>kozak1969_heights\<close>, for one, divides \<open>h^2\<close> by
  \<open>total_height^2\<close> where the formula squares \<open>h / total_height\<close>, which is the same
  number in the reals and not always the same binary32 value. The embedding does not
  round, so it states no theorem about these values. The two cases in which the
  diameter does not depend on rounding are C8 and C9 below.
\<close>

subsection \<open>The stored list\<close>

text \<open>
  C6, as amended. For every entry \<open>h \<mapsto> [dib_int, dib, conv]\<close> of a profile returned by
  any of the four evaluators, on any input, \<open>conv\<close> is \<open>dib / 12.0\<close>, and whenever \<open>dib\<close>
  is finite and its truncation fits a 32-bit \<open>int\<close> (\<open>-2^31 - 1 < dib < 2^31\<close>),
  \<open>dib_int\<close> is \<open>dib\<close> truncated toward zero: the floor of a non-negative \<open>dib\<close>, the
  ceiling of a negative one.
\<close>

theorem profile_entries:
  assumes "czaplewski_heights dbh total_height a b c d e f = Inr p
         \<or> kozak1969_heights dbh total_height a b c = Inr p
         \<or> kozak1988_heights dbh total_height a b c d e f g h i = Inr p
         \<or> wensel_heights dbh total_height a b c d e = Inr p"
    and "(ht, dib_int, dib, conv) \<in> set p"
  shows "conv = dib / Fin 12
       \<and> (\<forall>r. dib = Fin r \<and> - (2 ^ 31) - 1 < r \<and> r < 2 ^ 31 \<longrightarrow>
              (0 \<le> r \<longrightarrow> dib_int = \<lfloor>r\<rfloor>) \<and> (r < 0 \<longrightarrow> dib_int = \<lceil>r\<rceil>))"
proof -
  from heights_emitted[OF assms(1)] assms(2) have "is_emitted (ht, dib_int, dib, conv)"
    by blast
  then have "dib_int = c_int dib" "conv = dib / Fin 12"
    by (simp_all add: is_emitted_def emitted_def)
  then show ?thesis
    using c_int_trunc by blast
qed

text \<open>A diameter of \<open>-3.5\<close> is stored with the integer \<open>-3\<close>, not \<open>-4\<close>.\<close>

theorem profile_entries_witness:
  "kozak1969_heights (Fin (- 3.5)) (Fin 1) (Fin 1) (Fin 0) (Fin 0)
     = Inr [(1, - 3, Fin (- 3.5), Fin (- 7 / 24))]
   \<and> (1, - 3, Fin (- 3.5), Fin (- 7 / 24)) \<in> set [(1, - 3, Fin (- 3.5), Fin (- 7 / 24))]
   \<and> Fin (- 7 / 24) = Fin (- 3.5) / Fin 12
   \<and> - (2 ^ 31) - 1 < (- 3.5 :: real) \<and> (- 3.5 :: real) < 2 ^ 31
   \<and> (- 3 :: int) = \<lceil>- 3.5 :: real\<rceil>"
proof -
  have run: "kozak1969_heights (Fin (- 3.5)) (Fin 1) (Fin 1) (Fin 0) (Fin 0)
     = Inr [(1, - 3, Fin (- 3.5), Fin (- 7 / 24))]"
    by (simp add: kozak1969_heights_Fin kozak1969_dib_spec_unit emitted_def c_int_def trunc_def
        upto_rec1)
  from profile_entries[where p = "[(1, - 3, Fin (- 3.5), Fin (- 7 / 24))]" and ht = 1
      and dib_int = "- 3" and dib = "Fin (- 3.5)" and conv = "Fin (- 7 / 24)",
      OF disjI2, OF disjI1, OF run]
  show ?thesis using run by simp
qed

text \<open>
  The claim as stated fails for a diameter that no \<open>int\<close> holds: with
  \<open>dbh = 3000000000\<close> and the coefficients 1, 0, 0 the diameter is \<open>3000000000\<close> and the
  integer stored with it is not its truncation.
\<close>

theorem dib_beyond_int:
  "kozak1969_heights (Fin 3000000000) (Fin 1) (Fin 1) (Fin 0) (Fin 0)
     = Inr [(1, - 2147483648, Fin 3000000000, Fin 250000000)]
   \<and> \<lfloor>3000000000 :: real\<rfloor> \<noteq> - 2147483648"
  by (simp add: kozak1969_heights_Fin kozak1969_dib_spec_unit emitted_def c_int_def trunc_def
      upto_rec1)

text \<open>
  A diameter that is not a number (a negative sum under the root) has no truncation
  either; the entry is stored all the same.
\<close>

lemma nan_dib_entry:
  "kozak1969_heights (Fin 1) (Fin 1) (Fin (- 1)) (Fin 0) (Fin 0)
     = Inr [(1, - 2147483648, NaN, NaN)]"
  by (simp add: kozak1969_heights_Fin kozak1969_dib_spec_def emitted_def c_int_def upto_rec1
      trunc_def)

subsection \<open>Trees without a height of 1\<close>

text \<open>
  C7, as amended. With \<open>total_height\<close> equal to zero \<open>int(total_height)\<close> is 0 and
  \<open>range(1, 1)\<close> is empty: for any \<open>dbh\<close> and coefficients each evaluator returns the
  empty mapping. No division is executed and no value, finite or not, is stored.
\<close>

theorem zero_height_empty_profile:
  "czaplewski_heights dbh (Fin 0) a b c d e f = Inr []
   \<and> kozak1969_heights dbh (Fin 0) a b c = Inr []
   \<and> kozak1988_heights dbh (Fin 0) a b c d e f g h i = Inr []
   \<and> wensel_heights dbh (Fin 0) a b c d e = Inr []"
  by (simp add: heights_empty c_int_zero)

text \<open>
  The claim as stated (a division by zero or a non-finite result for a zero height)
  fails for each evaluator, here for the tree with \<open>dbh = 20\<close> and all coefficients 1.
\<close>

theorem zero_height_no_division:
  "czaplewski_heights (Fin 20) (Fin 0) (Fin 1) (Fin 1) (Fin 1) (Fin 1) (Fin 1) (Fin 1) = Inr []
   \<and> kozak1969_heights (Fin 20) (Fin 0) (Fin 1) (Fin 1) (Fin 1) = Inr []
   \<and> kozak1988_heights (Fin 20) (Fin 0) (Fin 1) (Fin 1) (Fin 1) (Fin 1) (Fin 1) (Fin 1)
        (Fin 1) (Fin 1) (Fin 1) = Inr []
   \<and> wensel_heights (Fin 20) (Fin 0) (Fin 1) (Fin 1) (Fin 1) (Fin 1) (Fin 1) = Inr []"
  by (simp add: heights_empty c_int_zero)

subsection \<open>Boundary cases of the models\<close>

text \<open>
  C8, as amended. For every coefficient set (a, b, c, d, e) with \<open>b > 0\<close> and every
  input with \<open>1 < total_height < 2^31\<close> such that \<open>X = c + d*dbh + e*total_height\<close> is
  computed without rounding and is not zero, \<open>a / X \<le> 88\<close> and \<open>dbh * a\<close> is a binary32
  number, the entry of \<open>wensel_heights\<close> at height 1 has the diameter \<open>dbh * a\<close>.

  There \<open>Z = 0\<close> and, for \<open>b > 0\<close>, \<open>Z^b = 0\<close>; \<open>exp(a/X)\<close> is finite because
  \<open>a/X \<le> 88\<close> (in single as in double precision), so that the product of \<open>Z^b\<close> with
  \<open>1 - exp(a/X)\<close> is zero, the logarithm is that of 1, which is 0, and \<open>dbh * a\<close>,
  being a binary32 number, is stored as it is.
\<close>

theorem wensel_height_one_dib:
  assumes "1 < total_height" "total_height < 2 ^ 31" "0 < b"
    "X_unrounded dbh total_height c d e"
    "c + d * dbh + e * total_height \<noteq> 0"
    "a / (c + d * dbh + e * total_height) \<le> 88"
    "binary32 (dbh * a)"
  shows "\<exists>p dib_int conv.
           wensel_heights (Fin dbh) (Fin total_height) (Fin a) (Fin b) (Fin c) (Fin d) (Fin e)
             = Inr p
         \<and> map_of p 1 = Some (dib_int, Fin (dbh * a), conv)"
proof -
  have "(1 :: int) \<in> {1..\<lfloor>total_height\<rfloor>}"
    using assms(1) by (simp add: le_floor_iff)
  then show ?thesis
    using tabulate_lookup[of total_height 1 "wensel_dib_spec dbh total_height a b c d e"]
      assms(1,2,3,5)
    by (simp add: wensel_heights_Fin wensel_dib_spec_height_one)
qed

theorem wensel_height_one_dib_witness:
  "(1 :: real) < 80 \<and> (80 :: real) < 2 ^ 31 \<and> (0 :: real) < 2
   \<and> X_unrounded 20 80 3 1 1
   \<and> (3 :: real) + 1 * 20 + 1 * 80 \<noteq> 0
   \<and> (2 :: real) / (3 + 1 * 20 + 1 * 80) \<le> 88
   \<and> binary32 (20 * 2)
   \<and> (\<exists>p dib_int conv.
           wensel_heights (Fin 20) (Fin 80) (Fin 2) (Fin 2) (Fin 3) (Fin 1) (Fin 1) = Inr p
         \<and> map_of p 1 = Some (dib_int, Fin 40, conv))"
proof -
  have exact: "X_unrounded 20 80 3 1 1"
    using binary32_of_int[of 20] binary32_of_int[of 23] binary32_of_int[of 80]
      binary32_of_int[of 103]
    by (simp add: X_unrounded_def)
  have product: "binary32 (20 * 2)"
    using binary32_of_int[of 40] by simp
  show ?thesis
    using exact product
      wensel_height_one_dib[where total_height = 80 and dbh = 20 and a = 2 and b = 2
        and c = 3 and d = 1 and e = 1]
    by simp
qed

text \<open>
  The claim as stated fails for the exponent \<open>b = 0\<close>: \<open>pow(0, 0)\<close> is 1, the argument
  of the logarithm is \<open>exp(a/X)\<close> and the diameter at height 1 is
  \<open>dbh * (a - X * (a/X)) = 0\<close>, not \<open>dbh * a = 10\<close>.
\<close>

theorem wensel_height_one_zero_exponent:
  "wensel_heights (Fin 10) (Fin 1.5) (Fin 1) (Fin 0) (Fin 1) (Fin 0) (Fin 0)
     = Inr [(1, 0, Fin 0, Fin 0)]"
  by (simp add: wensel_heights_def c_int_def trunc_def upto_rec1 wensel_step_def of_c_int_def
      fpow.simps Let_def)

text \<open>
  C9. For every finite \<open>dbh\<close> and \<open>total_height\<close> (in particular for \<open>dbh > 0\<close> and
  \<open>total_height \<ge> 1\<close>), \<open>kozak1969_heights\<close> called with \<open>a = 1\<close>, \<open>b = 0\<close>, \<open>c = 0\<close>
  returns a profile in which the diameter stored at every key is \<open>dbh\<close>.
\<close>

theorem kozak1969_unit_coefficients:
  "\<exists>p. kozak1969_heights (Fin dbh) (Fin total_height) (Fin 1) (Fin 0) (Fin 0) = Inr p
       \<and> (\<forall>h\<in>fst ` set p. \<exists>dib_int conv. map_of p h = Some (dib_int, Fin dbh, conv))"
  by (auto simp: kozak1969_heights_Fin kozak1969_dib_spec_unit map_of_tabulate emitted_def)

theorem kozak1969_unit_coefficients_witness:
  "kozak1969_heights (Fin 15) (Fin 3) (Fin 1) (Fin 0) (Fin 0)
     = Inr [(1, 15, Fin 15, Fin (5 / 4)), (2, 15, Fin 15, Fin (5 / 4)), (3, 15, Fin 15, Fin (5 / 4))]
   \<and> (\<exists>p. kozak1969_heights (Fin 15) (Fin 3) (Fin 1) (Fin 0) (Fin 0) = Inr p
       \<and> (\<forall>h\<in>fst ` set p. \<exists>dib_int conv. map_of p h = Some (dib_int, Fin 15, conv)))"
proof -
  have "[1..c_int (Fin 3)] = [1, 2, 3]"
    by (simp add: c_int_def trunc_def upto_rec1)
  then show ?thesis
    using kozak1969_unit_coefficients[of 15 3]
    by (simp add: kozak1969_heights_Fin kozak1969_dib_spec_unit emitted_def c_int_def trunc_def)
qed

subsection \<open>Heights below 1\<close>

text \<open>
  C10. For every \<open>total_height\<close> strictly less than 1 in the comparison of C (every
  finite value below 1, zero and the negative ones included, and minus infinity) and
  any \<open>dbh\<close> and coefficients, \<open>int(total_height)\<close> is below 1, the range of the loop
  is empty, so that the body of the loop is never run, and each of the four
  evaluators returns the empty mapping and raises nothing.
\<close>

theorem empty_profile_below_one:
  assumes "flt total_height (Fin 1)"
  shows "[1..c_int total_height] = []
       \<and> czaplewski_heights dbh total_height a b c d e f = Inr []
       \<and> kozak1969_heights dbh total_height a b c = Inr []
       \<and> kozak1988_heights dbh total_height a b c d e f g h i = Inr []
       \<and> wensel_heights dbh total_height a b c d e = Inr []"
  using c_int_lt_1[OF assms] by (simp add: heights_empty)

theorem empty_profile_below_one_witness:
  "flt (Fin (- 3)) (Fin 1)
   \<and> [1..c_int (Fin (- 3))] = []
   \<and> czaplewski_heights (Fin 20) (Fin (- 3)) NaN (Fin 0) (Fin 1) (Fin 1) (Fin 1) (Fin 1) = Inr []
   \<and> kozak1969_heights (Fin 20) (Fin (- 3)) (Fin (- 1)) (Fin 0) (Fin 0) = Inr []
   \<and> kozak1988_heights (Fin 20) (Fin (- 3)) (Fin 1) (Fin 1) (Fin 1) (Fin 1) (Fin 1) (Fin 1)
        (Fin 1) (Fin 1) (Fin 1) = Inr []
   \<and> wensel_heights (Fin 20) (Fin (- 3)) (Fin 1) (Fin 1) (Fin 0) (Fin 0) (Fin 0) = Inr []"
  using empty_profile_below_one[of "Fin (- 3)"] by simp

end
